theory Spec2Isabelle
  imports Main
begin

section \<open>The dense tensor library used by the class\<close>

text \<open>
  \<^verbatim>\<open>DiagLazyTensor\<close> is written against a dense tensor library. A tensor is modelled by
  its shape and its entries in row-major order (a contiguous tensor); the entry type is a
  parameter, with the arithmetic of its type class; rounding, strides and devices are
  outside the model, and the special values of IEEE floats are the type \<open>ieee\<close> below. Every exception of the
  library is a value of \<open>error\<close>: shape errors are \<open>RuntimeError\<close>, indexing errors are
  \<open>IndexError\<close>.
\<close>

datatype error = RuntimeError | IndexError

datatype 'a tensor = Tensor (shape: "nat list") (data: "'a list")

definition bindE :: "error + 'a \<Rightarrow> ('a \<Rightarrow> error + 'b) \<Rightarrow> error + 'b" where
  "bindE m f = (case m of Inl e \<Rightarrow> Inl e | Inr x \<Rightarrow> f x)"

definition wf_tensor :: "'a tensor \<Rightarrow> bool" where
  "wf_tensor t = (length (data t) = prod_list (shape t))"

text \<open>Row-major offset of a multi-index, and the multi-index of an offset.\<close>

fun ravel :: "nat list \<Rightarrow> nat list \<Rightarrow> nat" where
  "ravel (s # sh) (i # idx) = i * prod_list sh + ravel sh idx"
| "ravel _ _ = 0"

fun unravel :: "nat list \<Rightarrow> nat \<Rightarrow> nat list" where
  "unravel [] k = []"
| "unravel (s # sh) k = (k div prod_list sh) # unravel sh (k mod prod_list sh)"

definition valid_index :: "nat list \<Rightarrow> nat list \<Rightarrow> bool" where
  "valid_index sh idx = list_all2 (<) idx sh"

definition elem :: "'a tensor \<Rightarrow> nat list \<Rightarrow> 'a" where
  "elem t idx = data t ! ravel (shape t) idx"

definition tabulate :: "nat list \<Rightarrow> (nat list \<Rightarrow> 'a) \<Rightarrow> 'a tensor" where
  "tabulate sh f = Tensor sh (map (\<lambda>k. f (unravel sh k)) [0..<prod_list sh])"

definition ndimension :: "'a tensor \<Rightarrow> nat" where
  "ndimension t = length (shape t)"

text \<open>\<^verbatim>\<open>t.size(d)\<close>: a negative \<open>d\<close> counts from the end; out of range raises.\<close>

definition size_dim :: "'a tensor \<Rightarrow> int \<Rightarrow> error + nat" where
  "size_dim t d =
     (let nd = int (ndimension t)
      in if - nd \<le> d \<and> d < nd then Inr (shape t ! nat (d mod nd)) else Inl IndexError)"

text \<open>
  Broadcasting: shapes are aligned at the last dimension, a missing or size-1 dimension
  stretches to the other operand's size, any other mismatch raises.
\<close>

definition pad_shape :: "nat \<Rightarrow> nat list \<Rightarrow> nat list" where
  "pad_shape n sh = replicate (n - length sh) 1 @ sh"

definition broadcastable :: "nat list \<Rightarrow> nat list \<Rightarrow> bool" where
  "broadcastable a b =
     (let n = max (length a) (length b)
      in list_all2 (\<lambda>x y. x = y \<or> x = 1 \<or> y = 1) (pad_shape n a) (pad_shape n b))"

definition broadcast_shape :: "nat list \<Rightarrow> nat list \<Rightarrow> nat list" where
  "broadcast_shape a b =
     (let n = max (length a) (length b)
      in map2 (\<lambda>x y. if x = 1 then y else x) (pad_shape n a) (pad_shape n b))"

text \<open>The index of the source entry that a broadcast result reads at \<open>idx\<close>.\<close>

definition bidx :: "nat list \<Rightarrow> nat list \<Rightarrow> nat list" where
  "bidx src idx =
     map2 (\<lambda>s i. if s = 1 then 0 else i) src (drop (length idx - length src) idx)"

definition broadcast_op :: "('a \<Rightarrow> 'b \<Rightarrow> 'c) \<Rightarrow> 'a tensor \<Rightarrow> 'b tensor \<Rightarrow> error + 'c tensor" where
  "broadcast_op f a b =
     (if broadcastable (shape a) (shape b)
      then Inr (tabulate (broadcast_shape (shape a) (shape b))
                  (\<lambda>idx. f (elem a (bidx (shape a) idx)) (elem b (bidx (shape b) idx))))
      else Inl RuntimeError)"

definition tmul :: "'a::times tensor \<Rightarrow> 'a tensor \<Rightarrow> error + 'a tensor" where
  "tmul = broadcast_op (*)"

definition tadd :: "'a::plus tensor \<Rightarrow> 'a tensor \<Rightarrow> error + 'a tensor" where
  "tadd = broadcast_op (+)"


definition tmap :: "('a \<Rightarrow> 'b) \<Rightarrow> 'a tensor \<Rightarrow> 'b tensor" where
  "tmap f t = Tensor (shape t) (map f (data t))"

text \<open>\<^verbatim>\<open>mask.type_as(t)\<close>: a comparison mask as ones and zeros of the entry type.\<close>

definition type_as :: "bool tensor \<Rightarrow> 'a::{zero,one} tensor" where
  "type_as = tmap (\<lambda>b. if b then 1 else 0)"

definition unsqueeze :: "'a tensor \<Rightarrow> int \<Rightarrow> error + 'a tensor" where
  "unsqueeze t d =
     (let nd = int (ndimension t)
      in if - (nd + 1) \<le> d \<and> d \<le> nd
         then (let p = nat (d mod (nd + 1))
               in Inr (Tensor (take p (shape t) @ [1] @ drop p (shape t)) (data t)))
         else Inl IndexError)"

text \<open>
  \<^verbatim>\<open>t.expand_as(other)\<close>: only size-1 dimensions stretch, new dimensions are added in
  front, and a target with fewer dimensions raises.
\<close>

definition expand_as :: "'a tensor \<Rightarrow> 'b tensor \<Rightarrow> error + 'a tensor" where
  "expand_as t other =
     (let src = shape t; tgt = shape other
      in if length src \<le> length tgt \<and>
            list_all2 (\<lambda>s u. s = u \<or> s = 1) src (drop (length tgt - length src) tgt)
         then Inr (tabulate tgt (\<lambda>idx. elem t (bidx src idx)))
         else Inl RuntimeError)"

text \<open>
  \<^verbatim>\<open>t.sum(d)\<close> removes dimension \<open>d\<close>, adding up the entries along it. A tensor without
  dimensions accepts \<open>0\<close> and \<open>-1\<close> and is returned as it is.
\<close>

definition sum_dim :: "'a::monoid_add tensor \<Rightarrow> int \<Rightarrow> error + 'a tensor" where
  "sum_dim t d =
     (let sh = shape t; nd = int (length sh)
      in if nd = 0 then (if d = 0 \<or> d = -1 then Inr t else Inl IndexError)
         else if - nd \<le> d \<and> d < nd
         then (let k = nat (d mod nd)
               in Inr (tabulate (take k sh @ drop (Suc k) sh)
                         (\<lambda>idx. sum_list (map (\<lambda>j. elem t (take k idx @ j # drop k idx))
                                            [0..<sh ! k]))))
         else Inl IndexError)"

text \<open>
  \<^verbatim>\<open>t.view(*dims)\<close> on a contiguous tensor: at most one dimension is \<open>-1\<close> and is
  inferred from the number of entries; no other negative size is accepted; the sizes
  must multiply to the number of entries; and a \<open>-1\<close> beside a size \<open>0\<close> is ambiguous
  and raises.
\<close>

definition view :: "'a tensor \<Rightarrow> int list \<Rightarrow> error + 'a tensor" where
  "view t dims =
     (let n = prod_list (shape t);
          newsize = prod_list (map nat (filter (\<lambda>d. d \<noteq> -1) dims))
      in if list_ex (\<lambda>d. d < -1) dims \<or> 1 < length (filter (\<lambda>d. d = -1) dims)
         then Inl RuntimeError
         else if list_ex (\<lambda>d. d = -1) dims
         then (if (n = newsize \<or> (0 < newsize \<and> n mod newsize = 0)) \<and> newsize \<noteq> 0
               then Inr (Tensor (map (\<lambda>d. if d = -1 then n div newsize else nat d) dims)
                           (data t))
               else Inl RuntimeError)
         else (if n = newsize then Inr (Tensor (map nat dims) (data t))
               else Inl RuntimeError))"





text \<open>
  \<^verbatim>\<open>t.diag()\<close>: a vector becomes the square matrix with the vector on its main diagonal,
  a matrix gives its main diagonal, anything else raises.
\<close>

definition tdiag :: "'a::zero tensor \<Rightarrow> error + 'a tensor" where
  "tdiag t =
     (case shape t of
        [n] \<Rightarrow> Inr (tabulate [n, n] (\<lambda>idx. if idx ! 0 = idx ! 1 then elem t [idx ! 0] else 0))
      | [r, c] \<Rightarrow> Inr (tabulate [min r c] (\<lambda>idx. elem t [idx ! 0, idx ! 0]))
      | _ \<Rightarrow> Inl RuntimeError)"

text \<open>
  \<^verbatim>\<open>torch.randn(*sizes)\<close>: the random draws are a parameter, \<open>draws k\<close> being the
  \<open>k\<close>-th standard normal draw of the call; a negative size raises.
\<close>

definition randn :: "(nat \<Rightarrow> 'a) \<Rightarrow> int list \<Rightarrow> error + 'a tensor" where
  "randn draws sizes =
     (if list_ex (\<lambda>d. d < 0) sizes then Inl RuntimeError
      else Inr (Tensor (map nat sizes) (map draws [0..<prod_list (map nat sizes)])))"

text \<open>
  The entries of a floating tensor with their special values: a finite number (an
  integer stands for it, rounding being outside the model), the two infinities and NaN.
  A product with NaN is NaN, an infinity times zero is NaN, and otherwise the signs
  multiply.
\<close>

datatype ieee = Finite int | PInf | NInf | NaN

instantiation ieee :: "{times, zero, one}"
begin

fun times_ieee :: "ieee \<Rightarrow> ieee \<Rightarrow> ieee" where
  "times_ieee NaN y = NaN"
| "times_ieee x NaN = NaN"
| "times_ieee (Finite a) (Finite b) = Finite (a * b)"
| "times_ieee (Finite a) PInf = (if a = 0 then NaN else if 0 < a then PInf else NInf)"
| "times_ieee (Finite a) NInf = (if a = 0 then NaN else if 0 < a then NInf else PInf)"
| "times_ieee PInf (Finite b) = (if b = 0 then NaN else if 0 < b then PInf else NInf)"
| "times_ieee NInf (Finite b) = (if b = 0 then NaN else if 0 < b then NInf else PInf)"
| "times_ieee PInf PInf = PInf"
| "times_ieee PInf NInf = NInf"
| "times_ieee NInf PInf = NInf"
| "times_ieee NInf NInf = PInf"

definition zero_ieee :: ieee where
  "zero_ieee = Finite 0"

definition one_ieee :: ieee where
  "one_ieee = Finite 1"

instance ..

end

section \<open>The class DiagLazyTensor\<close>

text \<open>An instance holds one field, \<^verbatim>\<open>_diag\<close>; the constructor stores its argument.\<close>

datatype 'a diag_lazy_tensor = DiagLazyTensor (attr_diag: "'a tensor")

text \<open>
  Modelled from the spec: the sibling classes of \<^verbatim>\<open>DiagLazyTensor\<close>, which are not
  among the sources. These are the lazy tensors that \<^verbatim>\<open>__add__\<close> meets and builds.
  \<open>AddedDiagLazyTensor\<close> is the spec's lazily-composed matrix-plus-diagonal
  representation, which defers densification: it holds its two constructor arguments
  as they are. \<open>OtherLazyTensor\<close> stands for an instance of any other sibling class,
  given by the tensors that parametrize it.
\<close>

datatype 'a lazy_tensor =
    Diag "'a diag_lazy_tensor"
  | AddedDiagLazyTensor "'a lazy_tensor" "'a lazy_tensor"
  | OtherLazyTensor "'a tensor list"

text \<open>\<^verbatim>\<open>_size\<close>\<close>

definition size_lt :: "'a diag_lazy_tensor \<Rightarrow> error + nat list" where
  "size_lt self =
     (let d = attr_diag self
      in if ndimension d = 2
         then bindE (size_dim d 0) (\<lambda>b. bindE (size_dim d (-1)) (\<lambda>n. Inr [b, n, n]))
         else bindE (size_dim d (-1)) (\<lambda>n. Inr [n, n]))"

text \<open>
  Modelled from the spec: \<^verbatim>\<open>LazyTensor.ndimension\<close>, a method of the base class, which
  is not among the sources. The spec gives a lazy matrix the shape \<open>(batch?, n, n)\<close>
  returned by \<open>size()\<close>, 2-D when unbatched and 3-D when batched: the number of
  dimensions is the length of that shape.
\<close>

definition lt_ndimension :: "'a diag_lazy_tensor \<Rightarrow> error + nat" where
  "lt_ndimension self = bindE (size_lt self) (\<lambda>s. Inr (length s))"

text \<open>\<^verbatim>\<open>_matmul\<close>; Python's \<^verbatim>\<open>and\<close> asks for the matrix's dimensions only for a vector.\<close>

definition matmul :: "'a::times diag_lazy_tensor \<Rightarrow> 'a tensor \<Rightarrow> error + 'a tensor" where
  "matmul self rhs =
     (let res = bindE (unsqueeze (attr_diag self) (-1))
                  (\<lambda>u. bindE (expand_as u rhs) (\<lambda>e. tmul e rhs))
      in if ndimension rhs = 1
         then bindE (lt_ndimension self)
                (\<lambda>nd. if nd = 2 then tmul (attr_diag self) rhs else res)
         else res)"

text \<open>\<^verbatim>\<open>_t_matmul\<close>\<close>

definition t_matmul :: "'a::times diag_lazy_tensor \<Rightarrow> 'a tensor \<Rightarrow> error + 'a tensor" where
  "t_matmul self rhs = matmul self rhs"

text \<open>\<^verbatim>\<open>_quad_form_derivative\<close>; the one-element tuple is a one-element list.\<close>

definition quad_form_derivative ::
  "'a::{times,monoid_add} diag_lazy_tensor \<Rightarrow> 'a tensor \<Rightarrow> 'a tensor \<Rightarrow> error + 'a tensor list" where
  "quad_form_derivative self left_vecs right_vecs =
     bindE (tmul left_vecs right_vecs)
       (\<lambda>res. if ndimension (attr_diag self) < ndimension res
               then bindE (sum_dim res (-1)) (\<lambda>res'. Inr [res'])
               else Inr [res])"

text \<open>\<^verbatim>\<open>_transpose_nonbatch\<close>\<close>

definition transpose_nonbatch :: "'a diag_lazy_tensor \<Rightarrow> 'a diag_lazy_tensor" where
  "transpose_nonbatch self = self"



text \<open>\<^verbatim>\<open>add_diag\<close>\<close>

definition add_diag :: "'a::plus diag_lazy_tensor \<Rightarrow> 'a tensor \<Rightarrow> error + 'a diag_lazy_tensor" where
  "add_diag self added_diag =
     bindE (expand_as added_diag (attr_diag self))
       (\<lambda>e. bindE (tadd (attr_diag self) e) (\<lambda>s. Inr (DiagLazyTensor s)))"

text \<open>\<^verbatim>\<open>__add__\<close>; \<^verbatim>\<open>isinstance(other, DiagLazyTensor)\<close> is the constructor \<open>Diag\<close>.\<close>

definition dunder_add :: "'a::plus diag_lazy_tensor \<Rightarrow> 'a lazy_tensor \<Rightarrow> error + 'a lazy_tensor" where
  "dunder_add self other =
     (case other of
        Diag other' \<Rightarrow>
          bindE (tadd (attr_diag self) (attr_diag other')) (\<lambda>s. Inr (Diag (DiagLazyTensor s)))
      | _ \<Rightarrow> Inr (AddedDiagLazyTensor other (Diag self)))"

text \<open>\<^verbatim>\<open>diag\<close>\<close>

definition diag :: "'a diag_lazy_tensor \<Rightarrow> 'a tensor" where
  "diag self = attr_diag self"

text \<open>
  \<^verbatim>\<open>evaluate\<close>; the base class's \<^verbatim>\<open>evaluate\<close>, which is not among the sources, is the
  parameter \<open>super_evaluate\<close>.
\<close>

definition evaluate ::
  "('a::zero diag_lazy_tensor \<Rightarrow> error + 'a tensor) \<Rightarrow> 'a diag_lazy_tensor \<Rightarrow> error + 'a tensor" where
  "evaluate super_evaluate self =
     bindE (lt_ndimension self)
       (\<lambda>nd. if nd = 2 then tdiag (attr_diag self) else super_evaluate self)"

text \<open>\<^verbatim>\<open>sum_batch\<close>; \<^verbatim>\<open>self.__class__\<close> is \<open>DiagLazyTensor\<close>.\<close>

definition sum_batch ::
  "'a::monoid_add diag_lazy_tensor \<Rightarrow> int option \<Rightarrow> error + 'a diag_lazy_tensor" where
  "sum_batch self sum_batch_size =
     bindE (size_dim (attr_diag self) (-1))
       (\<lambda>n. bindE (case sum_batch_size of
                      None \<Rightarrow> view (attr_diag self) [-1, int n]
                    | Some g \<Rightarrow> view (attr_diag self) [-1, g, int n])
          (\<lambda>d. bindE (sum_dim d (-2)) (\<lambda>s. Inr (DiagLazyTensor s))))"

text \<open>
  \<^verbatim>\<open>zero_mean_mvn_samples\<close>; the entrywise square root of the library is the parameter
  \<open>fsqrt\<close> (a total function: the library raises nothing on a negative entry), the
  random draws are \<open>draws\<close>.
\<close>

definition zero_mean_mvn_samples ::
  "('a::times \<Rightarrow> 'a) \<Rightarrow> (nat \<Rightarrow> 'a) \<Rightarrow> 'a diag_lazy_tensor \<Rightarrow> int \<Rightarrow> error + 'a tensor" where
  "zero_mean_mvn_samples fsqrt draws self num_samples =
     bindE (lt_ndimension self)
       (\<lambda>nd. bindE (if nd = 3
                     then bindE (size_dim (attr_diag self) 0)
                            (\<lambda>a. bindE (size_dim (attr_diag self) 1)
                               (\<lambda>b. randn draws [num_samples, int a, int b]))
                     else bindE (size_dim (attr_diag self) 0)
                            (\<lambda>a. randn draws [num_samples, int a]))
          (\<lambda>base_samples. bindE (unsqueeze (attr_diag self) 0)
             (\<lambda>u. tmul (tmap fsqrt u) base_samples)))"

section \<open>Properties of the tensor library\<close>

lemma bindE_simps [simp]: "bindE (Inr x) f = f x" "bindE (Inl e) f = Inl e"
  by (simp_all add: bindE_def)

lemma ravel_less: "list_all2 (<) idx sh \<Longrightarrow> ravel sh idx < prod_list sh"
proof (induction idx sh rule: list_all2_induct)
  case Nil
  then show ?case by simp
next
  case (Cons i idx s sh)
  have "i * prod_list sh + ravel sh idx < i * prod_list sh + prod_list sh"
    using Cons.IH by simp
  also have "\<dots> = Suc i * prod_list sh" by simp
  also have "\<dots> \<le> s * prod_list sh"
    using Cons.hyps(1) by (intro mult_le_mono1) simp
  finally show ?case by simp
qed

lemma unravel_ravel: "list_all2 (<) idx sh \<Longrightarrow> unravel sh (ravel sh idx) = idx"
proof (induction idx sh rule: list_all2_induct)
  case Nil
  then show ?case by simp
next
  case (Cons i idx s sh)
  have "ravel sh idx < prod_list sh" using Cons.hyps(2) by (rule ravel_less)
  then show ?case using Cons.IH by simp
qed

lemma shape_tabulate [simp]: "shape (tabulate sh f) = sh"
  by (simp add: tabulate_def)

lemma wf_tabulate [simp]: "wf_tensor (tabulate sh f)"
  by (simp add: tabulate_def wf_tensor_def)

lemma elem_tabulate: "valid_index sh idx \<Longrightarrow> elem (tabulate sh f) idx = f idx"
  by (simp add: elem_def tabulate_def valid_index_def ravel_less unravel_ravel)

lemma map2_same: "map2 f xs xs = map (\<lambda>x. f x x) xs"
  by (induction xs) auto

lemma broadcastable_same: "broadcastable sh sh"
  by (simp add: broadcastable_def pad_shape_def list_all2_same)

lemma broadcast_shape_same: "broadcast_shape sh sh = sh"
  by (simp add: broadcast_shape_def pad_shape_def map2_same)

lemma bidx_valid: "valid_index sh idx \<Longrightarrow> bidx sh idx = idx"
proof -
  assume v: "valid_index sh idx"
  then have len: "length idx = length sh"
    by (simp add: valid_index_def list_all2_lengthD)
  have "list_all2 (<) idx sh \<Longrightarrow> map2 (\<lambda>s i. if s = 1 then 0 else i) sh idx = idx"
    by (induction idx sh rule: list_all2_induct) auto
  with v len show ?thesis by (simp add: bidx_def valid_index_def)
qed

text \<open>On operands of one shape a broadcast operation is the entrywise operation.\<close>

lemma broadcast_op_same:
  assumes "shape a = shape b"
  shows "\<exists>r. broadcast_op f a b = Inr r \<and> shape r = shape a \<and> wf_tensor r \<and>
           (\<forall>idx. valid_index (shape a) idx \<longrightarrow> elem r idx = f (elem a idx) (elem b idx))"
  using assms
  by (simp add: broadcast_op_def broadcastable_same broadcast_shape_same elem_tabulate bidx_valid)

lemma tmul_same:
  assumes "shape a = shape b"
  shows "\<exists>r. tmul a b = Inr r \<and> shape r = shape a \<and> wf_tensor r \<and>
           (\<forall>idx. valid_index (shape a) idx \<longrightarrow> elem r idx = elem a idx * elem b idx)"
  unfolding tmul_def using assms by (rule broadcast_op_same)

lemma unsqueeze_last: "unsqueeze t (-1) = Inr (Tensor (shape t @ [1]) (data t))"
  by (simp add: unsqueeze_def ndimension_def Let_def zmod_minus1)

lemma unsqueeze_first: "unsqueeze t 0 = Inr (Tensor (1 # shape t) (data t))"
  by (simp add: unsqueeze_def ndimension_def Let_def)

lemma ravel_snoc_one: "length i = length sd \<Longrightarrow> ravel (sd @ [1]) (i @ [0]) = ravel sd i"
  by (induction sd i rule: ravel.induct) auto

lemma bidx_snoc:
  "length i = length sd \<Longrightarrow> valid_index sd i \<Longrightarrow> bidx (sd @ [1]) (p @ i @ [j]) = i @ [0]"
  using bidx_valid[of sd i] by (simp add: bidx_def)

lemma expand_last:
  assumes "shape rhs = pre @ sd @ [k]"
  shows "expand_as (Tensor (sd @ [1]) xs) rhs =
           Inr (tabulate (shape rhs) (\<lambda>idx. elem (Tensor (sd @ [1]) xs) (bidx (sd @ [1]) idx)))"
proof -
  have "list_all2 (\<lambda>s u. s = u \<or> s = 1) (sd @ [1]) (sd @ [k])"
    by (simp add: list_all2_appendI list_all2_same)
  then show ?thesis using assms by (simp add: expand_as_def Let_def)
qed

section \<open>Size and construction\<close>

lemma size_lt_1: "shape d = [n] \<Longrightarrow> size_lt (DiagLazyTensor d) = Inr [n, n]"
  by (simp add: size_lt_def size_dim_def ndimension_def zmod_minus1)

lemma size_lt_2: "shape d = [b, n] \<Longrightarrow> size_lt (DiagLazyTensor d) = Inr [b, n, n]"
  by (simp add: size_lt_def size_dim_def ndimension_def zmod_minus1)

text \<open>
  C10: a \<open>DiagLazyTensor\<close> built from a tensor \<open>d\<close> gives \<open>d\<close> back as its diagonal;
  its size is \<open>(B, n, n)\<close> when \<open>d\<close> has shape \<open>(B, n)\<close> and \<open>(n, n)\<close> when \<open>d\<close> has
  shape \<open>(n,)\<close>.
\<close>

theorem diag_size_roundtrip:
  "diag (DiagLazyTensor d) = d \<and>
   (shape d = [B, n] \<longrightarrow> size_lt (DiagLazyTensor d) = Inr [B, n, n]) \<and>
   (shape d = [n] \<longrightarrow> size_lt (DiagLazyTensor d) = Inr [n, n])"
  by (simp add: diag_def size_lt_1 size_lt_2)

theorem diag_size_roundtrip_witness:
  "diag (DiagLazyTensor (Tensor [2, 3] [1, 2, 3, 4, 5, 6 :: int])) = Tensor [2, 3] [1, 2, 3, 4, 5, 6] \<and>
   size_lt (DiagLazyTensor (Tensor [2, 3] [1, 2, 3, 4, 5, 6 :: int])) = Inr [2, 3, 3] \<and>
   diag (DiagLazyTensor (Tensor [2] [7, 8 :: int])) = Tensor [2] [7, 8] \<and>
   size_lt (DiagLazyTensor (Tensor [2] [7, 8 :: int])) = Inr [2, 2]"
  using diag_size_roundtrip [of "Tensor [2, 3] [1, 2, 3, 4, 5, 6 :: int]" 2 3]
    diag_size_roundtrip [of "Tensor [2] [7, 8 :: int]" 0 2]
  by simp

section \<open>Products with the diagonal matrix\<close>

lemma matmul_else:
  assumes sh: "shape rhs = pre @ shape d @ [k]" and nd: "1 \<le> ndimension d"
  shows "\<exists>res. matmul (DiagLazyTensor d) rhs = Inr res \<and> shape res = shape rhs \<and> wf_tensor res \<and>
           (\<forall>p i j. length p = length pre \<and> length i = ndimension d \<and>
                valid_index (shape rhs) (p @ i @ [j])
              \<longrightarrow> elem res (p @ i @ [j]) = elem d i * elem rhs (p @ i @ [j]))"
proof -
  let ?e = "tabulate (shape rhs)
              (\<lambda>idx. elem (Tensor (shape d @ [1]) (data d)) (bidx (shape d @ [1]) idx))"
  have nr: "ndimension rhs \<noteq> 1"
    using sh nd by (auto simp add: ndimension_def)
  have m: "matmul (DiagLazyTensor d) rhs = tmul ?e rhs"
    using nr expand_last[OF sh, of "data d"] by (simp add: matmul_def unsqueeze_last Let_def)
  obtain r where r: "tmul ?e rhs = Inr r" "shape r = shape rhs" "wf_tensor r"
    and el: "\<forall>idx. valid_index (shape rhs) idx \<longrightarrow> elem r idx = elem ?e idx * elem rhs idx"
    using tmul_same[of ?e rhs] by auto
  have "elem r (p @ i @ [j]) = elem d i * elem rhs (p @ i @ [j])"
    if lp: "length p = length pre" and li: "length i = ndimension d"
      and v: "valid_index (shape rhs) (p @ i @ [j])" for p i j
  proof -
    have vi: "valid_index (shape d) i"
      using v lp li sh by (simp add: valid_index_def ndimension_def list_all2_append)
    have "elem ?e (p @ i @ [j]) = elem (Tensor (shape d @ [1]) (data d)) (i @ [0])"
      using v vi li bidx_snoc[of i "shape d" p j] by (simp add: elem_tabulate ndimension_def)
    also have "\<dots> = elem d i"
      using li ravel_snoc_one[of i "shape d"] by (simp add: elem_def ndimension_def)
    finally show ?thesis using el v by simp
  qed
  with m r show ?thesis by auto
qed

lemma matmul_vec:
  assumes "shape d = [n]" "shape rhs = [n]"
  shows "\<exists>res. matmul (DiagLazyTensor d) rhs = Inr res \<and> shape res = [n] \<and> wf_tensor res \<and>
           (\<forall>i<n. elem res [i] = elem d [i] * elem rhs [i])"
proof -
  have m: "matmul (DiagLazyTensor d) rhs = tmul d rhs"
    using assms by (simp add: matmul_def ndimension_def lt_ndimension_def size_lt_1 Let_def)
  obtain r where r: "tmul d rhs = Inr r" "shape r = shape d" "wf_tensor r"
    and el: "\<forall>idx. valid_index (shape d) idx \<longrightarrow> elem r idx = elem d idx * elem rhs idx"
    using tmul_same[of d rhs] assms by auto
  have "elem r [i] = elem d [i] * elem rhs [i]" if "i < n" for i
    using el that assms by (simp add: valid_index_def)
  with m r assms show ?thesis by auto
qed

lemma matmul_batched_low:
  assumes "shape d = [B, n]" "ndimension rhs \<le> 2"
  shows "matmul (DiagLazyTensor d) rhs = Inl RuntimeError"
proof -
  have e: "expand_as (Tensor [B, n, 1] (data d)) rhs = Inl RuntimeError"
    using assms(2) by (simp add: expand_as_def ndimension_def Let_def)
  have u: "unsqueeze d (-1) = Inr (Tensor [B, n, 1] (data d))"
    using assms(1) unsqueeze_last [of d] by simp
  show ?thesis
    using assms(1) e u by (simp add: matmul_def lt_ndimension_def size_lt_2 Let_def)
qed

text \<open>
  C1, as the code has it: for an unbatched diagonal \<open>d\<close> of length \<open>n\<close> and a plain
  vector \<open>rhs\<close> of length \<open>n\<close>, \<open>matmul\<close> returns the entrywise product of \<open>d\<close> and
  \<open>rhs\<close>. When the shape of \<open>rhs\<close> is the shape of \<open>d\<close> followed by a column dimension,
  possibly behind further batch dimensions (a matrix for an unbatched diagonal, a batch
  of matrices for a batched one), it returns a tensor of the shape of \<open>rhs\<close> whose entry
  at batch index \<open>p\<close>, row index \<open>i\<close> and column \<open>j\<close> is the entry of \<open>d\<close> at \<open>i\<close> times
  that of \<open>rhs\<close>: \<open>d\<close> is broadcast along the last dimension. For a batched diagonal and
  an \<open>rhs\<close> of at most two dimensions, a plain vector included, it raises the library's
  shape error and returns nothing.
\<close>

theorem matmul_diag_scaling:
  "(shape d = [n] \<and> shape rhs = [n] \<longrightarrow>
      (\<exists>res. matmul (DiagLazyTensor d) rhs = Inr res \<and> shape res = [n] \<and> wf_tensor res \<and>
         (\<forall>i<n. elem res [i] = elem d [i] * elem rhs [i]))) \<and>
   (shape rhs = pre @ shape d @ [k] \<and> 1 \<le> ndimension d \<longrightarrow>
      (\<exists>res. matmul (DiagLazyTensor d) rhs = Inr res \<and> shape res = shape rhs \<and> wf_tensor res \<and>
         (\<forall>p i j. length p = length pre \<and> length i = ndimension d \<and>
              valid_index (shape rhs) (p @ i @ [j])
            \<longrightarrow> elem res (p @ i @ [j]) = elem d i * elem rhs (p @ i @ [j])))) \<and>
   (shape d = [B, n] \<and> ndimension rhs \<le> 2 \<longrightarrow>
      matmul (DiagLazyTensor d) rhs = Inl RuntimeError)"
  using matmul_vec[of d n rhs] matmul_else[of rhs pre d k] matmul_batched_low[of d B n rhs]
  by blast

theorem matmul_diag_scaling_witness:
  "(\<exists>res. matmul (DiagLazyTensor (Tensor [2] [2, 3 :: int])) (Tensor [2] [5, 7]) = Inr res \<and>
      shape res = [2] \<and> elem res [0] = 10 \<and> elem res [1] = 21) \<and>
   (\<exists>res. matmul (DiagLazyTensor (Tensor [2, 2] [2, 3, 4, 5 :: int]))
             (Tensor [2, 2, 1] [1, 2, 3, 4]) = Inr res \<and>
      shape res = [2, 2, 1] \<and> elem res [1, 0, 0] = 12 \<and> elem res [1, 1, 0] = 20) \<and>
   matmul (DiagLazyTensor (Tensor [2, 2] [2, 3, 4, 5 :: int])) (Tensor [2, 2] [1, 2, 3, 4]) =
     Inl RuntimeError"
proof (intro conjI)
  let ?d = "Tensor [2] [2, 3 :: int]" and ?v = "Tensor [2] [5, 7 :: int]"
  from matmul_diag_scaling [where d = ?d and n = 2 and rhs = ?v]
  obtain res where r: "matmul (DiagLazyTensor ?d) ?v = Inr res" "shape res = [2]"
    and e: "\<forall>i<2. elem res [i] = elem ?d [i] * elem ?v [i]"
    by auto
  from e have "elem res [0] = 10" "elem res [1] = 21"
    by (simp_all add: elem_def)
  with r show "\<exists>res. matmul (DiagLazyTensor ?d) ?v = Inr res \<and>
      shape res = [2] \<and> elem res [0] = 10 \<and> elem res [1] = 21"
    by simp
next
  let ?d = "Tensor [2, 2] [2, 3, 4, 5 :: int]" and ?m = "Tensor [2, 2, 1] [1, 2, 3, 4 :: int]"
  from matmul_diag_scaling [where d = ?d and rhs = ?m and pre = "[]" and k = 1]
  obtain res where r: "matmul (DiagLazyTensor ?d) ?m = Inr res" "shape res = [2, 2, 1]"
    and e: "\<forall>p i j. length p = 0 \<and> length i = 2 \<and> valid_index [2, 2, 1] (p @ i @ [j])
              \<longrightarrow> elem res (p @ i @ [j]) = elem ?d i * elem ?m (p @ i @ [j])"
    by (auto simp add: ndimension_def)
  from e [rule_format, of "[]" "[1, 0]" 0] e [rule_format, of "[]" "[1, 1]" 0]
  have "elem res [1, 0, 0] = 12" "elem res [1, 1, 0] = 20"
    by (simp_all add: elem_def valid_index_def)
  with r show "\<exists>res. matmul (DiagLazyTensor ?d) ?m = Inr res \<and>
      shape res = [2, 2, 1] \<and> elem res [1, 0, 0] = 12 \<and> elem res [1, 1, 0] = 20"
    by simp
next
  let ?d = "Tensor [2, 2] [2, 3, 4, 5 :: int]" and ?m = "Tensor [2, 2] [1, 2, 3, 4 :: int]"
  from matmul_diag_scaling [where d = ?d and rhs = ?m and B = 2 and n = 2]
  show "matmul (DiagLazyTensor ?d) ?m = Inl RuntimeError"
    by (simp add: ndimension_def)
qed

text \<open>
  C1 as stated fails for a batched diagonal and a plain vector, a case it names: the
  diagonal of shape \<open>(2, 2)\<close> is unsqueezed to shape \<open>(2, 2, 1)\<close>, which \<^verbatim>\<open>expand_as\<close>
  cannot bring to the one dimension of the vector, and the call raises instead of
  returning a broadcast product.
\<close>

theorem matmul_batched_vector_counterexample:
  "matmul (DiagLazyTensor (Tensor [2, 2] [2, 3, 4, 5 :: int])) (Tensor [2] [5, 7]) =
     Inl RuntimeError"
  by (simp add: matmul_def lt_ndimension_def size_lt_2 ndimension_def unsqueeze_last
        expand_as_def Let_def)

text \<open>
  C6: \<open>t_matmul\<close> returns what \<open>matmul\<close> returns, on every right-hand side (an error
  included), and the transpose of the matrix is the matrix itself.
\<close>

theorem t_matmul_symmetric:
  "t_matmul self rhs = matmul self rhs \<and> transpose_nonbatch self = self"
  by (simp add: t_matmul_def transpose_nonbatch_def)

section \<open>Sums of lazy tensors\<close>

lemma tadd_same:
  assumes "shape a = shape b"
  shows "\<exists>r. tadd a b = Inr r \<and> shape r = shape a \<and> wf_tensor r \<and>
           (\<forall>idx. valid_index (shape a) idx \<longrightarrow> elem r idx = elem a idx + elem b idx)"
  unfolding tadd_def using assms by (rule broadcast_op_same)

text \<open>
  C3: the sum of two diagonal matrices with diagonals of one shape is the diagonal
  matrix of the entrywise sum of the diagonals; for an addend that is not a
  \<open>DiagLazyTensor\<close> the result is the composite \<open>AddedDiagLazyTensor\<close> holding both
  operands as they are: no dense matrix is computed.
\<close>

theorem add_diag_closed:
  "(shape d1 = shape d2 \<longrightarrow>
      (\<exists>s. dunder_add (DiagLazyTensor d1) (Diag (DiagLazyTensor d2)) = Inr (Diag (DiagLazyTensor s)) \<and>
         shape s = shape d1 \<and> wf_tensor s \<and>
         (\<forall>idx. valid_index (shape d1) idx \<longrightarrow> elem s idx = elem d1 idx + elem d2 idx))) \<and>
   ((\<forall>other'. other \<noteq> Diag other') \<longrightarrow>
      dunder_add self other = Inr (AddedDiagLazyTensor other (Diag self)))"
proof (intro conjI impI)
  assume "shape d1 = shape d2"
  from tadd_same[OF this] show "\<exists>s. dunder_add (DiagLazyTensor d1) (Diag (DiagLazyTensor d2)) = Inr (Diag (DiagLazyTensor s)) \<and>
         shape s = shape d1 \<and> wf_tensor s \<and>
         (\<forall>idx. valid_index (shape d1) idx \<longrightarrow> elem s idx = elem d1 idx + elem d2 idx)"
    by (auto simp add: dunder_add_def)
next
  assume "\<forall>other'. other \<noteq> Diag other'"
  then show "dunder_add self other = Inr (AddedDiagLazyTensor other (Diag self))"
    by (cases other) (simp_all add: dunder_add_def)
qed

theorem add_diag_closed_witness:
  "(\<exists>s. dunder_add (DiagLazyTensor (Tensor [2] [1, 2 :: int]))
           (Diag (DiagLazyTensor (Tensor [2] [10, 20]))) = Inr (Diag (DiagLazyTensor s)) \<and>
      shape s = [2] \<and> elem s [0] = 11 \<and> elem s [1] = 22) \<and>
   dunder_add (DiagLazyTensor (Tensor [2] [1, 2 :: int]))
       (OtherLazyTensor [Tensor [2, 2] [1, 2, 3, 4]]) =
     Inr (AddedDiagLazyTensor (OtherLazyTensor [Tensor [2, 2] [1, 2, 3, 4]])
            (Diag (DiagLazyTensor (Tensor [2] [1, 2]))))"
proof
  let ?a = "Tensor [2] [1, 2 :: int]" and ?b = "Tensor [2] [10, 20 :: int]"
  from add_diag_closed [of ?a ?b "Diag (DiagLazyTensor ?a)" "DiagLazyTensor ?a"]
  obtain s where s: "dunder_add (DiagLazyTensor ?a) (Diag (DiagLazyTensor ?b)) = Inr (Diag (DiagLazyTensor s))"
      "shape s = [2]"
    and e: "\<forall>idx. valid_index [2] idx \<longrightarrow> elem s idx = elem ?a idx + elem ?b idx"
    by auto
  from e [rule_format, of "[0]"] e [rule_format, of "[1]"]
  have "elem s [0] = 11" "elem s [1] = 22"
    by (simp_all add: elem_def valid_index_def)
  with s show "\<exists>s. dunder_add (DiagLazyTensor ?a) (Diag (DiagLazyTensor ?b)) = Inr (Diag (DiagLazyTensor s)) \<and>
      shape s = [2] \<and> elem s [0] = 11 \<and> elem s [1] = 22"
    by simp
next
  let ?a = "Tensor [2] [1, 2 :: int]" and ?o = "OtherLazyTensor [Tensor [2, 2] [1, 2, 3, 4 :: int]]"
  from add_diag_closed [of ?a ?a ?o "DiagLazyTensor ?a"]
  show "dunder_add (DiagLazyTensor ?a) ?o = Inr (AddedDiagLazyTensor ?o (Diag (DiagLazyTensor ?a)))"
    by simp
qed

section \<open>Dense evaluation\<close>

lemma tdiag_vec:
  "shape d = [n] \<Longrightarrow> tdiag d = Inr (tabulate [n, n] (\<lambda>idx. if idx ! 0 = idx ! 1 then elem d [idx ! 0] else 0))"
  by (simp add: tdiag_def)

text \<open>
  C7: for an unbatched diagonal \<open>d\<close> of length \<open>n\<close>, \<open>evaluate\<close> returns the dense
  \<open>n \<times> n\<close> matrix with \<open>d\<close> on the main diagonal and zero elsewhere; for a batched
  diagonal it returns what the base class's \<open>evaluate\<close> returns.
\<close>

theorem evaluate_dense:
  "(shape d = [n] \<longrightarrow>
      (\<exists>m. evaluate super_evaluate (DiagLazyTensor d) = Inr m \<and> shape m = [n, n] \<and> wf_tensor m \<and>
         (\<forall>i<n. \<forall>j<n. elem m [i, j] = (if i = j then elem d [i] else 0)))) \<and>
   (shape d = [B, n] \<longrightarrow>
      evaluate super_evaluate (DiagLazyTensor d) = super_evaluate (DiagLazyTensor d))"
  by (auto simp add: evaluate_def lt_ndimension_def size_lt_1 size_lt_2 tdiag_vec elem_tabulate valid_index_def)

theorem evaluate_dense_witness:
  "(\<exists>m. evaluate (\<lambda>s. Inl RuntimeError) (DiagLazyTensor (Tensor [2] [2, 3 :: int])) = Inr m \<and>
      shape m = [2, 2] \<and> elem m [0, 0] = 2 \<and> elem m [0, 1] = 0 \<and>
      elem m [1, 0] = 0 \<and> elem m [1, 1] = 3) \<and>
   evaluate (\<lambda>s. Inr (attr_diag s)) (DiagLazyTensor (Tensor [1, 2] [2, 3 :: int])) =
     Inr (Tensor [1, 2] [2, 3])"
proof
  let ?d = "Tensor [2] [2, 3 :: int]"
  from evaluate_dense [of ?d 2 "\<lambda>s. Inl RuntimeError" 0]
  obtain m where m: "evaluate (\<lambda>s. Inl RuntimeError) (DiagLazyTensor ?d) = Inr m" "shape m = [2, 2]"
    and e: "\<forall>i<2. \<forall>j<2. elem m [i, j] = (if i = j then elem ?d [i] else 0)"
    by auto
  from e [rule_format, of 0 0] e [rule_format, of 0 1] e [rule_format, of 1 0]
    e [rule_format, of 1 1]
  have "elem m [0, 0] = 2" "elem m [0, 1] = 0" "elem m [1, 0] = 0" "elem m [1, 1] = 3"
    by (simp_all add: elem_def)
  with m show "\<exists>m. evaluate (\<lambda>s. Inl RuntimeError) (DiagLazyTensor ?d) = Inr m \<and>
      shape m = [2, 2] \<and> elem m [0, 0] = 2 \<and> elem m [0, 1] = 0 \<and>
      elem m [1, 0] = 0 \<and> elem m [1, 1] = 3"
    by simp
next
  from evaluate_dense [of "Tensor [1, 2] [2, 3 :: int]" 2 "\<lambda>s. Inr (attr_diag s)" 1]
  show "evaluate (\<lambda>s. Inr (attr_diag s)) (DiagLazyTensor (Tensor [1, 2] [2, 3 :: int])) =
     Inr (Tensor [1, 2] [2, 3])"
    by simp
qed

section \<open>The derivative of the quadratic form\<close>

lemma sum_dim_last:
  assumes "shape t \<noteq> []"
  shows "sum_dim t (-1) = Inr (tabulate (butlast (shape t))
           (\<lambda>idx. sum_list (map (\<lambda>j. elem t (take (length (shape t) - 1) idx @ j # drop (length (shape t) - 1) idx))
                             [0..<last (shape t)])))"
proof (cases "shape t" rule: rev_cases)
  case Nil
  with assms show ?thesis by simp
next
  case (snoc ys y)
  have "nat ((-1) mod int (Suc (length ys))) = length ys"
    by (simp add: zmod_minus1)
  with snoc show ?thesis
    by (simp add: sum_dim_def Let_def nth_append)
qed

lemma qfd_example:
  "1 \<le> ndimension d \<Longrightarrow> quad_form_derivative (DiagLazyTensor d) (Tensor [2] [1,2]) (Tensor [2] [3,4::'a::comm_semiring_1]) = Inr [Tensor [2] [3,8]]"
proof -
  assume d: "1 \<le> ndimension d"
  have "tmul (Tensor [2] [1,2]) (Tensor [2] [3,4::'a]) = Inr (Tensor [2] [3,8])"
    by (simp add: tmul_def broadcast_op_def broadcastable_same broadcast_shape_same tabulate_def bidx_def elem_def numeral_2_eq_2)
  with d show ?thesis
    by (auto simp add: quad_form_derivative_def ndimension_def)
qed

lemma qfd_general:
  fixes left_vecs right_vecs :: "'a::comm_semiring_1 tensor"
  shows
  "shape left_vecs = shape right_vecs \<longrightarrow>
     (ndimension left_vecs \<le> ndimension d \<longrightarrow>
        (\<exists>res. quad_form_derivative (DiagLazyTensor d) left_vecs right_vecs = Inr [res] \<and>
           shape res = shape left_vecs \<and> wf_tensor res \<and>
           (\<forall>idx. valid_index (shape left_vecs) idx
              \<longrightarrow> elem res idx = elem left_vecs idx * elem right_vecs idx))) \<and>
     (ndimension d < ndimension left_vecs \<longrightarrow>
        (\<exists>res. quad_form_derivative (DiagLazyTensor d) left_vecs right_vecs = Inr [res] \<and>
           shape res = butlast (shape left_vecs) \<and> wf_tensor res \<and>
           (\<forall>idx. valid_index (butlast (shape left_vecs)) idx
              \<longrightarrow> elem res idx =
                  (\<Sum>j<last (shape left_vecs). elem left_vecs (idx @ [j]) * elem right_vecs (idx @ [j])))))"
proof (intro impI conjI)
  assume sh: "shape left_vecs = shape right_vecs"
  obtain r where r: "tmul left_vecs right_vecs = Inr r" "shape r = shape left_vecs" "wf_tensor r"
    and el: "\<forall>idx. valid_index (shape left_vecs) idx \<longrightarrow> elem r idx = elem left_vecs idx * elem right_vecs idx"
    using tmul_same[OF sh] by auto
  {
    assume "ndimension left_vecs \<le> ndimension d"
    then show "\<exists>res. quad_form_derivative (DiagLazyTensor d) left_vecs right_vecs = Inr [res] \<and>
           shape res = shape left_vecs \<and> wf_tensor res \<and>
           (\<forall>idx. valid_index (shape left_vecs) idx
              \<longrightarrow> elem res idx = elem left_vecs idx * elem right_vecs idx)"
      using r el by (simp add: quad_form_derivative_def ndimension_def)
  next
    assume lt: "ndimension d < ndimension left_vecs"
    then have ne: "shape r \<noteq> []" using r by (auto simp add: ndimension_def)
    let ?s = "tabulate (butlast (shape r))
           (\<lambda>idx. sum_list (map (\<lambda>j. elem r (take (length (shape r) - 1) idx @ j # drop (length (shape r) - 1) idx))
                             [0..<last (shape r)]))"
    have q: "quad_form_derivative (DiagLazyTensor d) left_vecs right_vecs = Inr [?s]"
      using r lt sum_dim_last[OF ne] by (simp add: quad_form_derivative_def ndimension_def)
    have "elem ?s idx = (\<Sum>j<last (shape left_vecs). elem left_vecs (idx @ [j]) * elem right_vecs (idx @ [j]))"
      if v: "valid_index (butlast (shape left_vecs)) idx" for idx
    proof -
      have len: "length idx = length (shape r) - 1"
        using v r by (simp add: valid_index_def list_all2_lengthD)
      have vj: "valid_index (shape left_vecs) (idx @ [j])" if "j < last (shape left_vecs)" for j
      proof -
        have "shape left_vecs = butlast (shape left_vecs) @ [last (shape left_vecs)]"
          using ne r by simp
        then have "valid_index (shape left_vecs) (idx @ [j]) = valid_index (butlast (shape left_vecs) @ [last (shape left_vecs)]) (idx @ [j])"
          by simp
        also have "\<dots>" using v that by (simp add: valid_index_def list_all2_appendI)
        finally show ?thesis .
      qed
      have "elem ?s idx = sum_list (map (\<lambda>j. elem r (idx @ [j])) [0..<last (shape r)])"
        using v r len by (simp add: elem_tabulate)
      also have "\<dots> = (\<Sum>j<last (shape r). elem r (idx @ [j]))"
        by (simp add: interv_sum_list_conv_sum_set_nat atLeast0LessThan)
      also have "\<dots> = (\<Sum>j<last (shape left_vecs). elem left_vecs (idx @ [j]) * elem right_vecs (idx @ [j]))"
        using el vj r by (intro sum.cong) auto
      finally show ?thesis .
    qed
    with q r show "\<exists>res. quad_form_derivative (DiagLazyTensor d) left_vecs right_vecs = Inr [res] \<and>
           shape res = butlast (shape left_vecs) \<and> wf_tensor res \<and>
           (\<forall>idx. valid_index (butlast (shape left_vecs)) idx
              \<longrightarrow> elem res idx =
                  (\<Sum>j<last (shape left_vecs). elem left_vecs (idx @ [j]) * elem right_vecs (idx @ [j])))"
      by auto
  }
qed

text \<open>
  C4: for left and right vectors of one shape, \<open>quad_form_derivative\<close> returns a
  one-element tuple. Its entry is the entrywise product of the two when the product has
  no more dimensions than the diagonal, and otherwise the product summed over the last
  dimension. For \<open>l = [1, 2]\<close> and \<open>r = [3, 4]\<close> it returns \<open>([3, 8],)\<close>.
\<close>

theorem quad_form_derivative_product:
  fixes left_vecs right_vecs :: "'a::comm_semiring_1 tensor"
  shows
  "(shape left_vecs = shape right_vecs \<longrightarrow>
     (ndimension left_vecs \<le> ndimension d \<longrightarrow>
        (\<exists>res. quad_form_derivative (DiagLazyTensor d) left_vecs right_vecs = Inr [res] \<and>
           shape res = shape left_vecs \<and> wf_tensor res \<and>
           (\<forall>idx. valid_index (shape left_vecs) idx
              \<longrightarrow> elem res idx = elem left_vecs idx * elem right_vecs idx))) \<and>
     (ndimension d < ndimension left_vecs \<longrightarrow>
        (\<exists>res. quad_form_derivative (DiagLazyTensor d) left_vecs right_vecs = Inr [res] \<and>
           shape res = butlast (shape left_vecs) \<and> wf_tensor res \<and>
           (\<forall>idx. valid_index (butlast (shape left_vecs)) idx
              \<longrightarrow> elem res idx =
                  (\<Sum>j<last (shape left_vecs). elem left_vecs (idx @ [j]) * elem right_vecs (idx @ [j])))))) \<and>
   (1 \<le> ndimension d \<longrightarrow>
      quad_form_derivative (DiagLazyTensor d) (Tensor [2] [1, 2]) (Tensor [2] [3, 4 :: 'a]) =
        Inr [Tensor [2] [3, 8]])"
  using qfd_general [of left_vecs right_vecs d] qfd_example [of d] by blast

theorem quad_form_derivative_product_witness:
  "(\<exists>res. quad_form_derivative (DiagLazyTensor (Tensor [2] [5, 6 :: int]))
             (Tensor [2, 2] [1, 2, 3, 4]) (Tensor [2, 2] [3, 4, 5, 6]) = Inr [res] \<and>
      shape res = [2] \<and> elem res [0] = 11 \<and> elem res [1] = 39) \<and>
   (\<exists>res. quad_form_derivative (DiagLazyTensor (Tensor [2] [5, 6 :: int]))
             (Tensor [2] [1, 2]) (Tensor [2] [5, 7]) = Inr [res] \<and>
      shape res = [2] \<and> elem res [0] = 5 \<and> elem res [1] = 14) \<and>
   quad_form_derivative (DiagLazyTensor (Tensor [2] [5, 6 :: int]))
       (Tensor [2] [1, 2]) (Tensor [2] [3, 4]) = Inr [Tensor [2] [3, 8]]"
proof (intro conjI)
  let ?d = "Tensor [2] [5, 6 :: int]"
  let ?l = "Tensor [2, 2] [1, 2, 3, 4 :: int]" and ?r = "Tensor [2, 2] [3, 4, 5, 6 :: int]"
  from quad_form_derivative_product [of ?l ?r ?d]
  obtain res where r: "quad_form_derivative (DiagLazyTensor ?d) ?l ?r = Inr [res]" "shape res = [2]"
    and e: "\<forall>idx. valid_index [2] idx
              \<longrightarrow> elem res idx = (\<Sum>j<2. elem ?l (idx @ [j]) * elem ?r (idx @ [j]))"
    by (auto simp add: ndimension_def)
  from e [rule_format, of "[0]"] e [rule_format, of "[1]"]
  have "elem res [0] = 11" "elem res [1] = 39"
    by (simp_all add: elem_def valid_index_def numeral_2_eq_2 lessThan_Suc)
  with r show "\<exists>res. quad_form_derivative (DiagLazyTensor ?d) ?l ?r = Inr [res] \<and>
      shape res = [2] \<and> elem res [0] = 11 \<and> elem res [1] = 39"
    by simp
next
  let ?d = "Tensor [2] [5, 6 :: int]"
  let ?l = "Tensor [2] [1, 2 :: int]" and ?r = "Tensor [2] [5, 7 :: int]"
  from quad_form_derivative_product [of ?l ?r ?d]
  obtain res where r: "quad_form_derivative (DiagLazyTensor ?d) ?l ?r = Inr [res]" "shape res = [2]"
    and e: "\<forall>idx. valid_index [2] idx \<longrightarrow> elem res idx = elem ?l idx * elem ?r idx"
    by (auto simp add: ndimension_def)
  from e [rule_format, of "[0]"] e [rule_format, of "[1]"]
  have "elem res [0] = 5" "elem res [1] = 14"
    by (simp_all add: elem_def valid_index_def)
  with r show "\<exists>res. quad_form_derivative (DiagLazyTensor ?d) ?l ?r = Inr [res] \<and>
      shape res = [2] \<and> elem res [0] = 5 \<and> elem res [1] = 14"
    by simp
next
  from quad_form_derivative_product [of "Tensor [2] [1, 2 :: int]" "Tensor [2] [3, 4]" "Tensor [2] [5, 6 :: int]"]
  show "quad_form_derivative (DiagLazyTensor (Tensor [2] [5, 6 :: int]))
       (Tensor [2] [1, 2]) (Tensor [2] [3, 4]) = Inr [Tensor [2] [3, 8]]"
    by (simp add: ndimension_def)
qed

section \<open>Sums over the batch\<close>

lemma size_dim_last2: "shape d = [B, n] \<Longrightarrow> size_dim d (-1) = Inr n"
  by (simp add: size_dim_def ndimension_def zmod_minus1)

lemma view_none:
  "shape d = [B, n] \<Longrightarrow> 0 < n \<Longrightarrow> view d [-1, int n] = Inr (Tensor [B, n] (data d))"
  by (simp add: view_def Let_def)

lemma view_group:
  assumes "shape d = [B, n]" "0 < n" "0 < g" "g dvd B"
  shows "view d [-1, int g, int n] = Inr (Tensor [B div g, g, n] (data d))"
proof -
  obtain q where q: "B = g * q" using assms(4) by (auto simp: dvd_def)
  have "B * n mod (g * n) = 0" using q by simp
  moreover have "B * n div (g * n) = B div g" using assms by simp
  ultimately show ?thesis using assms
    by (simp add: view_def Let_def)
qed

lemma sum_dim_rows:
  "shape t = [B, n] \<Longrightarrow>
     sum_dim t (-2) = Inr (tabulate [n] (\<lambda>idx. sum_list (map (\<lambda>j. elem t (j # idx)) [0..<B])))"
  by (simp add: sum_dim_def Let_def)

lemma sum_dim_middle:
  "shape t = [a, g, n] \<Longrightarrow>
     sum_dim t (-2) =
       Inr (tabulate [a, n] (\<lambda>idx. sum_list (map (\<lambda>j. elem t (take 1 idx @ j # drop 1 idx)) [0..<g])))"
proof -
  have "nat ((-2) mod 3) = (1::nat)" by simp
  then show "shape t = [a, g, n] \<Longrightarrow> ?thesis"
    by (simp add: sum_dim_def Let_def)
qed

lemma sum_batch_none:
  fixes d :: "'a::comm_monoid_add tensor"
  assumes "shape d = [B, n]" "0 < n"
  shows "\<exists>s. sum_batch (DiagLazyTensor d) None = Inr (DiagLazyTensor s) \<and> shape s = [n] \<and> wf_tensor s \<and>
           (\<forall>j<n. elem s [j] = (\<Sum>b<B. elem d [b, j]))"
proof -
  let ?s = "tabulate [n] (\<lambda>idx. sum_list (map (\<lambda>j. elem (Tensor [B, n] (data d)) (j # idx)) [0..<B]))"
  have sb: "sum_batch (DiagLazyTensor d) None = Inr (DiagLazyTensor ?s)"
    using assms by (simp add: sum_batch_def size_dim_last2 view_none sum_dim_rows)
  have "elem ?s [j] = (\<Sum>b<B. elem d [b, j])" if "j < n" for j
  proof -
    have "elem ?s [j] = sum_list (map (\<lambda>b. elem (Tensor [B, n] (data d)) [b, j]) [0..<B])"
      using that by (simp add: elem_tabulate valid_index_def)
    also have "\<dots> = (\<Sum>b<B. elem (Tensor [B, n] (data d)) [b, j])"
      by (simp add: interv_sum_list_conv_sum_set_nat atLeast0LessThan)
    also have "\<dots> = (\<Sum>b<B. elem d [b, j])"
      using assms by (simp add: elem_def)
    finally show ?thesis .
  qed
  with sb show ?thesis by auto
qed

lemma sum_batch_group:
  fixes d :: "'a::comm_monoid_add tensor"
  assumes "shape d = [B, n]" "0 < n" "0 < g" "g dvd B"
  shows "\<exists>s. sum_batch (DiagLazyTensor d) (Some (int g)) = Inr (DiagLazyTensor s) \<and>
           shape s = [B div g, n] \<and> wf_tensor s \<and>
           (\<forall>i<B div g. \<forall>j<n. elem s [i, j] = (\<Sum>t<g. elem d [i * g + t, j]))"
proof -
  let ?v = "Tensor [B div g, g, n] (data d)"
  let ?s = "tabulate [B div g, n] (\<lambda>idx. sum_list (map (\<lambda>j. elem ?v (take 1 idx @ j # drop 1 idx)) [0..<g]))"
  have sb: "sum_batch (DiagLazyTensor d) (Some (int g)) = Inr (DiagLazyTensor ?s)"
    using assms view_group[OF assms] sum_dim_middle[of ?v "B div g" g n]
    by (simp add: sum_batch_def size_dim_last2)
  have "elem ?s [i, j] = (\<Sum>t<g. elem d [i * g + t, j])" if "i < B div g" "j < n" for i j
  proof -
    have "elem ?s [i, j] = sum_list (map (\<lambda>t. elem ?v [i, t, j]) [0..<g])"
      using that by (simp add: elem_tabulate valid_index_def)
    also have "\<dots> = (\<Sum>t<g. elem ?v [i, t, j])"
      by (simp add: interv_sum_list_conv_sum_set_nat atLeast0LessThan)
    also have "\<dots> = (\<Sum>t<g. elem d [i * g + t, j])"
      using assms by (simp add: elem_def algebra_simps)
    finally show ?thesis .
  qed
  with sb show ?thesis by auto
qed

lemma sum_batch_indivisible:
  fixes d :: "'a::monoid_add tensor"
  assumes "shape d = [B, n]" "\<not> g dvd int B"
  shows "sum_batch (DiagLazyTensor d) (Some g) = Inl RuntimeError"
proof -
  have g1: "g \<noteq> -1" using assms(2) by auto
  show ?thesis
  proof (cases "g < -1")
    case True
    then show ?thesis using assms by (simp add: sum_batch_def size_dim_last2 view_def Let_def)
  next
    case False
    with g1 have g0: "0 \<le> g" by simp
    then obtain k where k: "g = int k" using nonneg_int_cases by blast
    have nd: "\<not> k dvd B" using assms(2) k by simp
    have a: "B \<noteq> k" using nd by auto
    have b: "k = 0 \<or> 0 < B mod k" using nd by (auto simp: dvd_eq_mod_eq_0)
    have "view d [-1, int k, int n] = Inl RuntimeError"
      using assms(1) a b by (auto simp add: view_def Let_def)
    then show ?thesis using assms k
      by (simp add: sum_batch_def size_dim_last2)
  qed
qed

text \<open>
  C5, as the code has it: for a batched diagonal of shape \<open>(B, n)\<close> with \<open>n \<ge> 1\<close>,
  \<open>sum_batch\<close> without a group size returns the diagonal matrix whose diagonal, of
  shape \<open>(n,)\<close>, is the column-wise sum over the batch; with a group size \<open>g \<ge> 1\<close>
  that divides \<open>B\<close> it returns the diagonal matrix whose diagonal has shape
  \<open>(B / g, n)\<close>, each row being the sum of its group of \<open>g\<close> consecutive batch entries.
\<close>

theorem sum_batch_groups:
  fixes d :: "'a::comm_monoid_add tensor"
  shows
  "shape d = [B, n] \<and> 0 < n \<longrightarrow>
     (\<exists>s. sum_batch (DiagLazyTensor d) None = Inr (DiagLazyTensor s) \<and> shape s = [n] \<and>
        wf_tensor s \<and> (\<forall>j<n. elem s [j] = (\<Sum>b<B. elem d [b, j]))) \<and>
     (0 < g \<and> g dvd B \<longrightarrow>
        (\<exists>s. sum_batch (DiagLazyTensor d) (Some (int g)) = Inr (DiagLazyTensor s) \<and>
           shape s = [B div g, n] \<and> wf_tensor s \<and>
           (\<forall>i<B div g. \<forall>j<n. elem s [i, j] = (\<Sum>t<g. elem d [i * g + t, j]))))"
  using sum_batch_none [of d B n] sum_batch_group [of d B n g] by blast

theorem sum_batch_groups_witness:
  "(\<exists>s. sum_batch (DiagLazyTensor (Tensor [2, 2] [1, 2, 3, 4 :: int])) None = Inr (DiagLazyTensor s) \<and>
      shape s = [2] \<and> elem s [0] = 4 \<and> elem s [1] = 6) \<and>
   (\<exists>s. sum_batch (DiagLazyTensor (Tensor [4, 2] [1, 2, 3, 4, 5, 6, 7, 8 :: int])) (Some 2) =
           Inr (DiagLazyTensor s) \<and>
      shape s = [2, 2] \<and> elem s [0, 0] = 4 \<and> elem s [0, 1] = 6 \<and>
      elem s [1, 0] = 12 \<and> elem s [1, 1] = 14)"
proof
  let ?d = "Tensor [2, 2] [1, 2, 3, 4 :: int]"
  from sum_batch_groups [of ?d 2 2 1]
  obtain s where s: "sum_batch (DiagLazyTensor ?d) None = Inr (DiagLazyTensor s)" "shape s = [2]"
    and e: "\<forall>j<2. elem s [j] = (\<Sum>b<2. elem ?d [b, j])"
    by auto
  from e [rule_format, of 0] e [rule_format, of 1]
  have "elem s [0] = 4" "elem s [1] = 6"
    by (simp_all add: elem_def numeral_2_eq_2 lessThan_Suc)
  with s show "\<exists>s. sum_batch (DiagLazyTensor ?d) None = Inr (DiagLazyTensor s) \<and>
      shape s = [2] \<and> elem s [0] = 4 \<and> elem s [1] = 6"
    by simp
next
  let ?d = "Tensor [4, 2] [1, 2, 3, 4, 5, 6, 7, 8 :: int]"
  from sum_batch_groups [of ?d 4 2 2]
  obtain s where s: "sum_batch (DiagLazyTensor ?d) (Some 2) = Inr (DiagLazyTensor s)" "shape s = [2, 2]"
    and e: "\<forall>i<2. \<forall>j<2. elem s [i, j] = (\<Sum>t<2. elem ?d [i * 2 + t, j])"
    by auto
  from e [rule_format, of 0 0] e [rule_format, of 0 1] e [rule_format, of 1 0]
    e [rule_format, of 1 1]
  have "elem s [0, 0] = 4" "elem s [0, 1] = 6" "elem s [1, 0] = 12" "elem s [1, 1] = 14"
    by (simp_all add: elem_def numeral_2_eq_2 lessThan_Suc)
  with s show "\<exists>s. sum_batch (DiagLazyTensor ?d) (Some 2) = Inr (DiagLazyTensor s) \<and>
      shape s = [2, 2] \<and> elem s [0, 0] = 4 \<and> elem s [0, 1] = 6 \<and>
      elem s [1, 0] = 12 \<and> elem s [1, 1] = 14"
    by simp
qed

text \<open>
  C5 as stated fails where a size is zero. On a diagonal of shape \<open>(2, 0)\<close> the call
  \<^verbatim>\<open>view(-1, 0)\<close>, and with group size 1 the call \<^verbatim>\<open>view(-1, 1, 0)\<close>, ask the library
  to infer a dimension beside a size \<open>0\<close>, which it refuses as ambiguous; on a diagonal
  of shape \<open>(0, 1)\<close> the group size \<open>0\<close> divides the batch size \<open>0\<close> and
  \<^verbatim>\<open>view(-1, 0, 1)\<close> is refused for the same reason.
\<close>

theorem sum_batch_empty_counterexample:
  "sum_batch (DiagLazyTensor (Tensor [2, 0] ([] :: int list))) None = Inl RuntimeError \<and>
   sum_batch (DiagLazyTensor (Tensor [2, 0] ([] :: int list))) (Some 1) = Inl RuntimeError \<and>
   sum_batch (DiagLazyTensor (Tensor [0, 1] ([] :: int list))) (Some 0) = Inl RuntimeError"
  by (simp add: sum_batch_def size_dim_def ndimension_def view_def)

text \<open>
  C9: for a batched diagonal of shape \<open>(B, n)\<close> and a group size \<open>g\<close> that does not
  divide \<open>B\<close>, \<open>sum_batch\<close> returns no result: it fails with the shape error that
  \<^verbatim>\<open>view\<close> raises.
\<close>

theorem sum_batch_indivisible_error:
  fixes d :: "'a::monoid_add tensor"
  shows "shape d = [B, n] \<and> \<not> g dvd int B \<longrightarrow>
           sum_batch (DiagLazyTensor d) (Some g) = Inl RuntimeError"
  using sum_batch_indivisible [of d B n g] by blast

theorem sum_batch_indivisible_error_witness:
  "sum_batch (DiagLazyTensor (Tensor [3, 2] [1, 2, 3, 4, 5, 6 :: int])) (Some 2) = Inl RuntimeError"
  using sum_batch_indivisible_error [of "Tensor [3, 2] [1, 2, 3, 4, 5, 6 :: int]" 3 2 2]
  by simp

section \<open>Entries by index\<close>




lemma shape_type_as [simp]: "shape (type_as m) = shape m"
  by (simp add: type_as_def tmap_def)









section \<open>Sampling\<close>

lemma broadcastable_lead: "broadcastable (1 # sd) (m # sd)"
  by (simp add: broadcastable_def pad_shape_def list_all2_same)

lemma broadcast_shape_lead: "broadcast_shape (1 # sd) (m # sd) = m # sd"
  by (simp add: broadcast_shape_def pad_shape_def map2_same)

lemma bidx_lead: "valid_index sd idx \<Longrightarrow> bidx (1 # sd) (k # idx) = 0 # idx"
  using bidx_valid[of sd idx] by (simp add: bidx_def valid_index_def list_all2_lengthD)

lemma randn_ok:
  "list_all (\<lambda>d. 0 \<le> d) sizes \<Longrightarrow>
     randn draws sizes = Inr (Tensor (map nat sizes) (map draws [0..<prod_list (map nat sizes)]))"
  by (simp add: randn_def list_ex_iff list_all_iff not_less)

lemma elem_draws:
  "valid_index sh idx \<Longrightarrow> elem (Tensor sh (map draws [0..<prod_list sh])) idx = draws (ravel sh idx)"
  by (simp add: elem_def valid_index_def ravel_less)

lemma elem_sqrt_lead:
  assumes "wf_tensor d" "valid_index (shape d) idx"
  shows "elem (tmap fsqrt (Tensor (1 # shape d) (data d))) (0 # idx) = fsqrt (elem d idx)"
  using assms by (simp add: elem_def tmap_def wf_tensor_def valid_index_def ravel_less)

lemma lead_mul:
  assumes wf: "wf_tensor d" and sb: "shape base = m # shape d"
  shows "\<exists>s. tmul (tmap fsqrt (Tensor (1 # shape d) (data d))) base = Inr s \<and>
            shape s = m # shape d \<and> wf_tensor s \<and>
            (\<forall>k idx. valid_index (m # shape d) (k # idx) \<longrightarrow>
               elem s (k # idx) = fsqrt (elem d idx) * elem base (k # idx))"
proof -
  let ?a = "tmap fsqrt (Tensor (1 # shape d) (data d))"
  let ?s = "tabulate (m # shape d) (\<lambda>idx. elem ?a (bidx (1 # shape d) idx) * elem base (bidx (m # shape d) idx))"
  have sa: "shape ?a = 1 # shape d" by (simp add: tmap_def)
  have t: "tmul ?a base = Inr ?s"
    unfolding tmul_def broadcast_op_def sa sb
    using broadcastable_lead[of "shape d" m] broadcast_shape_lead[of "shape d" m] by simp
  have "elem ?s (k # idx) = fsqrt (elem d idx) * elem base (k # idx)"
    if v: "valid_index (m # shape d) (k # idx)" for k idx
  proof -
    have vi: "valid_index (shape d) idx" using v by (simp add: valid_index_def)
    show ?thesis
      using v bidx_lead[OF vi, of k] bidx_valid[OF v] elem_sqrt_lead[OF wf vi, of fsqrt]
      by (simp add: elem_tabulate)
  qed
  with t show ?thesis by auto
qed

lemma mvn_general:
  assumes shp: "shape d = [n] \<or> shape d = [B, n]" and wf: "wf_tensor d" and ns: "0 \<le> num_samples"
  shows "\<exists>s. zero_mean_mvn_samples fsqrt draws (DiagLazyTensor d) num_samples = Inr s \<and>
           shape s = nat num_samples # shape d \<and> wf_tensor s \<and>
           (\<forall>k idx. valid_index (nat num_samples # shape d) (k # idx) \<longrightarrow>
              elem s (k # idx) =
                fsqrt (elem d idx) * draws (ravel (nat num_samples # shape d) (k # idx)))"
proof -
  let ?sh = "nat num_samples # shape d"
  let ?base = "Tensor ?sh (map draws [0..<prod_list ?sh])"
  have z: "zero_mean_mvn_samples fsqrt draws (DiagLazyTensor d) num_samples =
             tmul (tmap fsqrt (Tensor (1 # shape d) (data d))) ?base"
    using shp ns
    by (auto simp add: zero_mean_mvn_samples_def lt_ndimension_def size_lt_1 size_lt_2
          size_dim_def ndimension_def randn_ok unsqueeze_first)
  obtain s where s: "tmul (tmap fsqrt (Tensor (1 # shape d) (data d))) ?base = Inr s"
      "shape s = ?sh" "wf_tensor s"
    and e: "\<forall>k idx. valid_index ?sh (k # idx) \<longrightarrow>
               elem s (k # idx) = fsqrt (elem d idx) * elem ?base (k # idx)"
    using lead_mul[OF wf, of ?base "nat num_samples" fsqrt] by auto
  have "elem s (k # idx) = fsqrt (elem d idx) * draws (ravel ?sh (k # idx))"
    if "valid_index ?sh (k # idx)" for k idx
    using e that elem_draws[OF that, of draws] by simp
  with z s show ?thesis by auto
qed

text \<open>
  C8, as the code has it: \<open>zero_mean_mvn_samples\<close> checks no sign. For every diagonal
  of shape \<open>(n,)\<close> or \<open>(B, n)\<close>, whatever the signs of its entries, and every
  non-negative number of samples, it returns a tensor with the sample dimension in
  front of the shape of the diagonal, whose entry at sample \<open>k\<close> and index \<open>idx\<close> is the
  library's square root of the diagonal entry at \<open>idx\<close> times the corresponding draw.
\<close>

theorem mvn_samples_returned:
  "(shape d = [n] \<or> shape d = [B, n]) \<and> wf_tensor d \<and> 0 \<le> num_samples \<longrightarrow>
     (\<exists>s. zero_mean_mvn_samples fsqrt draws (DiagLazyTensor d) num_samples = Inr s \<and>
        shape s = nat num_samples # shape d \<and> wf_tensor s \<and>
        (\<forall>k idx. valid_index (nat num_samples # shape d) (k # idx) \<longrightarrow>
           elem s (k # idx) =
             fsqrt (elem d idx) * draws (ravel (nat num_samples # shape d) (k # idx))))"
  using mvn_general [of d n B num_samples fsqrt draws] by blast

theorem mvn_samples_returned_witness:
  "\<forall>fsqrt draws.
     \<exists>s. zero_mean_mvn_samples fsqrt draws (DiagLazyTensor (Tensor [2] [4, 9 :: int])) 2 = Inr s \<and>
       shape s = [2, 2] \<and> elem s [0, 0] = fsqrt 4 * draws 0 \<and> elem s [0, 1] = fsqrt 9 * draws 1 \<and>
       elem s [1, 0] = fsqrt 4 * draws 2 \<and> elem s [1, 1] = fsqrt 9 * draws 3"
proof (intro allI)
  fix fsqrt :: "int \<Rightarrow> int" and draws :: "nat \<Rightarrow> int"
  let ?d = "Tensor [2] [4, 9 :: int]"
  from mvn_samples_returned [of ?d 2 0 2 fsqrt draws]
  obtain s where s: "zero_mean_mvn_samples fsqrt draws (DiagLazyTensor ?d) 2 = Inr s" "shape s = [2, 2]"
    and e: "\<forall>k idx. valid_index [2, 2] (k # idx) \<longrightarrow>
              elem s (k # idx) = fsqrt (elem ?d idx) * draws (ravel [2, 2] (k # idx))"
    by (auto simp add: wf_tensor_def)
  from e [rule_format, of 0 "[0]"] e [rule_format, of 0 "[1]"] e [rule_format, of 1 "[0]"]
    e [rule_format, of 1 "[1]"]
  have "elem s [0, 0] = fsqrt 4 * draws 0" "elem s [0, 1] = fsqrt 9 * draws 1"
    "elem s [1, 0] = fsqrt 4 * draws 2" "elem s [1, 1] = fsqrt 9 * draws 3"
    by (simp_all add: elem_def valid_index_def)
  with s show "\<exists>s. zero_mean_mvn_samples fsqrt draws (DiagLazyTensor ?d) 2 = Inr s \<and>
       shape s = [2, 2] \<and> elem s [0, 0] = fsqrt 4 * draws 0 \<and> elem s [0, 1] = fsqrt 9 * draws 1 \<and>
       elem s [1, 0] = fsqrt 4 * draws 2 \<and> elem s [1, 1] = fsqrt 9 * draws 3"
    by simp
qed

text \<open>
  C8 as stated fails: on the diagonal \<open>[4, -1]\<close> the call returns a sample, the
  square root of \<open>-1\<close> times a draw in its second entry, and raises nothing.
\<close>

theorem mvn_negative_counterexample:
  "\<forall>fsqrt draws.
     zero_mean_mvn_samples fsqrt draws (DiagLazyTensor (Tensor [2] [4, -1 :: int])) 1 =
       Inr (Tensor [1, 2] [fsqrt 4 * draws 0, fsqrt (- 1) * draws 1])"
  by (simp add: zero_mean_mvn_samples_def lt_ndimension_def size_lt_1 size_dim_def ndimension_def
        randn_def unsqueeze_first tmul_def broadcast_op_def broadcastable_def broadcast_shape_def
        pad_shape_def tabulate_def bidx_def elem_def tmap_def numeral_2_eq_2)

end
